theory Spec2Isabelle
  imports Main "HOL-Library.Sublist"
begin

section \<open>Data model of backend/server.py\<close>

text \<open>
  The server keeps two MongoDB collections, \<open>db.issues\<close> and \<open>db.issue_updates\<close>.
  Both are modelled as lists in insertion order (the natural order of an unsorted
  \<open>find\<close>). A document of \<open>db.issues\<close> is always the \<open>model_dump\<close> of an
  \<open>Issue\<close>, so it is a record with the fields of that class.

  A UTC instant is the number of microseconds since the epoch; the instants are those
  the clock gives, with years of four digits and far from the bounds of \<open>datetime\<close>.
  The source stores \<open>datetime.now(timezone.utc).isoformat()\<close> strings and compares
  them as strings; for instants of one offset that order is the chronological one, so
  \<open>$lt\<close> on two stored instants is \<open><\<close> here. A string is the list of its
  characters.
  Every value the source draws from its surroundings (the clock, \<open>uuid4\<close>, the
  reply of the language model) and every library function on strings it calls
  (\<open>hashlib\<close>, \<open>strftime\<close>, \<open>str.lower\<close>) is an argument of the model.
\<close>

type_synonym instant = int

definition timedelta_days :: "int \<Rightarrow> int" where
  "timedelta_days n = n * 86400000000"

definition utc_day :: "instant \<Rightarrow> int" where
  "utc_day t = t div 86400000000"

record user =
  uid :: string
  email :: string
  name :: string
  role :: string
  department :: "string option"

record issue =
  issue_id :: string
  category :: string
  summary :: string
  original_text :: string
  status :: string
  urgency_score :: int
  assigned_role :: string
  frequency_count :: int
  created_at :: instant
  sla_deadline :: instant
  anon_token :: string
  evidence_urls :: "string list"

record issue_update =
  update_id :: string
  upd_issue_id :: string
  upd_role :: string
  content_type :: string
  content_text :: "string option"
  content_url :: "string option"
  timestamp :: instant

record db =
  issues :: "issue list"
  issue_updates :: "issue_update list"

text \<open>
  The dictionary \<open>moderate_with_gemini\<close> returns. A reply of the language model
  is taken to have the shape the prompt asks for and the fallback has: a boolean, a
  string, an integer of any size, a string.
\<close>

record moderation =
  is_appropriate :: bool
  rewritten_text :: string
  mod_urgency_score :: int
  mod_summary :: string

text \<open>
  The exceptions that leave a route: \<open>raise HTTPException(status_code, detail)\<close>,
  and the \<open>OverflowError\<close> of the driver when a document holds an integer that
  does not fit 8 bytes. The error kinds of the specification are the exceptions the
  routes raise.
\<close>

datatype error = HTTPException nat string | OverflowError

abbreviation ContentRejected :: error where
  "ContentRejected \<equiv> HTTPException 400 ''Feedback contains inappropriate content''"

abbreviation NotFound :: error where
  "NotFound \<equiv> HTTPException 404 ''Issue not found''"

abbreviation AtCeiling :: error where
  "AtCeiling \<equiv> HTTPException 400 ''Already at highest level''"

text \<open>
  The library functions the source calls on strings: the hexadecimal SHA-256 digest,
  the \<open>%Y%m%d\<close> rendering of a UTC day, and \<open>str.lower\<close>.
\<close>

record platform =
  sha256_hexdigest :: "string \<Rightarrow> string"
  strftime_Ymd :: "int \<Rightarrow> string"
  str_lower :: "string \<Rightarrow> string"

section \<open>Store primitives\<close>

text \<open>\<open>update_one\<close> changes the first document that matches the filter, if any.\<close>

fun update_one :: "('a \<Rightarrow> bool) \<Rightarrow> ('a \<Rightarrow> 'a) \<Rightarrow> 'a list \<Rightarrow> 'a list" where
  "update_one p f [] = []"
| "update_one p f (x # xs) = (if p x then f x # xs else x # update_one p f xs)"

abbreviation find_one :: "('a \<Rightarrow> bool) \<Rightarrow> 'a list \<Rightarrow> 'a option" where
  "find_one p xs \<equiv> List.find p xs"

text \<open>\<open>find(query).to_list(n)\<close>: the first \<open>n\<close> matching documents.\<close>

definition find_to_list :: "('a \<Rightarrow> bool) \<Rightarrow> nat \<Rightarrow> 'a list \<Rightarrow> 'a list" where
  "find_to_list q n xs = take n (filter q xs)"

text \<open>
  A response document: the fields of a stored issue under their names, and the
  projection \<open>{"_id": 0, "anon_token": 0}\<close> that drops the named keys. The store's
  own \<open>_id\<close> is projected out of every query of the source and is not modelled.
\<close>

datatype bson = BStr string | BInt int | BIso instant | BArr "string list"

type_synonym document = "(string \<times> bson) list"

definition model_dump :: "issue \<Rightarrow> document" where
  "model_dump i =
     [(''issue_id'', BStr (issue_id i)),
      (''category'', BStr (category i)),
      (''summary'', BStr (summary i)),
      (''original_text'', BStr (original_text i)),
      (''status'', BStr (status i)),
      (''urgency_score'', BInt (urgency_score i)),
      (''assigned_role'', BStr (assigned_role i)),
      (''frequency_count'', BInt (frequency_count i)),
      (''created_at'', BIso (created_at i)),
      (''sla_deadline'', BIso (sla_deadline i)),
      (''anon_token'', BStr (anon_token i)),
      (''evidence_urls'', BArr (evidence_urls i))]"

definition project_out :: "string list \<Rightarrow> document \<Rightarrow> document" where
  "project_out ks d = filter (\<lambda>(k, v). k \<notin> set ks) d"

section \<open>Helper functions\<close>

definition generate_anon_token :: "platform \<Rightarrow> instant \<Rightarrow> string \<Rightarrow> string" where
  "generate_anon_token pf now u =
     (let salt = strftime_Ymd pf (utc_day now)
      in take 12 (sha256_hexdigest pf (u @ salt)))"

definition hierarchies :: "(string \<times> string list) list" where
  "hierarchies =
     [(''Academics'', [''Staff'', ''HoD'', ''Admin'', ''Principal'']),
      (''Hostel'', [''Warden'', ''Admin'', ''Principal'']),
      (''Infrastructure'', [''Staff'', ''Admin'', ''Principal'']),
      (''Food'', [''Staff'', ''Admin'', ''Principal'']),
      (''Transportation'', [''Staff'', ''Admin'', ''Principal'']),
      (''Other'', [''Staff'', ''Admin'', ''Principal''])]"

definition get_role_hierarchy :: "string \<Rightarrow> string list" where
  "get_role_hierarchy c =
     (case map_of hierarchies c of
        Some h \<Rightarrow> h
      | None \<Rightarrow> [''Staff'', ''Admin'', ''Principal''])"

text \<open>\<open>list.index\<close>, called only under the guard \<open>x in xs\<close>.\<close>

fun index_of :: "'a list \<Rightarrow> 'a \<Rightarrow> int" where
  "index_of [] y = 0"
| "index_of (x # xs) y = (if x = y then 0 else 1 + index_of xs y)"

text \<open>
  \<open>hierarchy.index(issue["assigned_role"]) if issue["assigned_role"] in hierarchy else -1\<close>
\<close>

definition current_index :: "string list \<Rightarrow> string \<Rightarrow> int" where
  "current_index hierarchy r = (if r \<in> set hierarchy then index_of hierarchy r else - 1)"

text \<open>
  The call of the language model and the parsing of its reply are the argument
  \<open>gw\<close>: \<open>None\<close> when anything inside the \<open>try\<close> block raises, the parsed reply
  otherwise.
\<close>

definition moderate_with_gemini :: "(string \<Rightarrow> moderation option) \<Rightarrow> string \<Rightarrow> moderation" where
  "moderate_with_gemini gw text =
     (case gw text of
        Some result \<Rightarrow> result
      | None \<Rightarrow>
          \<lparr>is_appropriate = True, rewritten_text = text,
           mod_urgency_score = 50, mod_summary = take 100 text\<rparr>)"

text \<open>\<open>moderation["summary"].lower() in existing["summary"].lower()\<close>\<close>

definition is_similar :: "platform \<Rightarrow> moderation \<Rightarrow> issue \<Rightarrow> bool" where
  "is_similar pf m existing =
     sublist (str_lower pf (mod_summary m)) (str_lower pf (summary existing))"

text \<open>
  \<open>insert_one\<close> encodes the document first: an integer outside the 8-byte range
  raises \<open>OverflowError\<close> and nothing is stored.
\<close>

definition bson_int :: "int \<Rightarrow> bool" where
  "bson_int n \<longleftrightarrow> - (2 ^ 63) \<le> n \<and> n < 2 ^ 63"

definition insert_one :: "issue \<Rightarrow> issue list \<Rightarrow> error + issue list" where
  "insert_one d ds =
     (if bson_int (urgency_score d) \<and> bson_int (frequency_count d) then Inr (ds @ [d])
      else Inl OverflowError)"

section \<open>Routes\<close>

text \<open>
  A route takes the store and returns the store it leaves behind together with
  either the exception it raises or its response.
\<close>

record submit_env =
  now_token :: instant
  now_sla :: instant
  uuid4 :: string
  now_created :: instant

text \<open>
  The clock is read three times on the path that creates an issue: for the salt of
  the token, for the deadline, and by the default factory of \<open>created_at\<close> when the
  \<open>Issue\<close> is constructed.
\<close>

definition existing_issues :: "string \<Rightarrow> db \<Rightarrow> issue list" where
  "existing_issues c s =
     find_to_list (\<lambda>i. category i = c \<and> status i \<noteq> ''Resolved'') 100 (issues s)"

text \<open>
  \<open>Issue(...)\<close> as \<open>submit_feedback\<close> calls it: \<open>status\<close> and
  \<open>frequency_count\<close> keep the defaults of the class, \<open>issue_id\<close> and
  \<open>created_at\<close> come from its default factories.
\<close>

definition Issue ::
  "string \<times> instant \<Rightarrow> string \<Rightarrow> string \<Rightarrow> string \<Rightarrow> int \<Rightarrow> string \<Rightarrow> instant \<Rightarrow>
   string \<Rightarrow> string list \<Rightarrow> issue" where
  "Issue fresh cat summ txt urgency assigned deadline token evidence =
     \<lparr>issue_id = fst fresh, category = cat, summary = summ, original_text = txt,
      status = ''Open'', urgency_score = urgency, assigned_role = assigned,
      frequency_count = 1, created_at = snd fresh, sla_deadline = deadline,
      anon_token = token, evidence_urls = evidence\<rparr>"

definition submit_feedback ::
  "platform \<Rightarrow> (string \<Rightarrow> moderation option) \<Rightarrow> submit_env \<Rightarrow> user \<Rightarrow>
   string \<Rightarrow> string \<Rightarrow> string list option \<Rightarrow> db \<Rightarrow> db \<times> (error + string \<times> string)" where
  "submit_feedback pf gw env current_user cat text evidence s =
     (if role current_user \<noteq> ''Student'' then
        (s, Inl (HTTPException 403 ''Only students can submit feedback''))
      else
        let moderation = moderate_with_gemini gw text in
        if \<not> is_appropriate moderation then (s, Inl ContentRejected)
        else
          case find_one (is_similar pf moderation) (existing_issues cat s) of
            Some existing \<Rightarrow>
              (s\<lparr>issues :=
                   update_one (\<lambda>i. issue_id i = issue_id existing)
                     (\<lambda>i. i\<lparr>frequency_count := frequency_count i + 1\<rparr>) (issues s)\<rparr>,
               Inr (''Similar issue already reported'', issue_id existing))
          | None \<Rightarrow>
              let hierarchy = get_role_hierarchy cat;
                  assigned = (case hierarchy of [] \<Rightarrow> ''Staff'' | r # _ \<Rightarrow> r);
                  token = generate_anon_token pf (now_token env) (uid current_user);
                  deadline = now_sla env + timedelta_days 2;
                  new_issue =
                    Issue (uuid4 env, now_created env) cat (mod_summary moderation) text
                      (mod_urgency_score moderation) assigned deadline token
                      (case evidence of None \<Rightarrow> [] | Some es \<Rightarrow> es)
              in case insert_one new_issue (issues s) of
                   Inl e \<Rightarrow> (s, Inl e)
                 | Inr stored \<Rightarrow>
                     (s\<lparr>issues := stored\<rparr>,
                      Inr (''Feedback submitted successfully'', issue_id new_issue)))"

definition hide_token :: "issue \<Rightarrow> document" where
  "hide_token i = project_out [''_id'', ''anon_token''] (model_dump i)"

definition get_my_issues :: "platform \<Rightarrow> instant \<Rightarrow> user \<Rightarrow> db \<Rightarrow> document list" where
  "get_my_issues pf now current_user s =
     (if role current_user = ''Student'' then
        let token = generate_anon_token pf now (uid current_user)
        in map hide_token (find_to_list (\<lambda>i. anon_token i = token) 1000 (issues s))
      else
        let query =
              (if role current_user = ''Principal'' then (\<lambda>i. status i = ''Escalated'')
               else (\<lambda>i. assigned_role i = role current_user))
        in map hide_token (find_to_list query 1000 (issues s)))"

definition get_all_issues :: "user \<Rightarrow> db \<Rightarrow> error + document list" where
  "get_all_issues current_user s =
     (if role current_user \<notin> set [''Admin'', ''Principal''] then
        Inl (HTTPException 403 ''Access denied'')
      else Inr (map hide_token (find_to_list (\<lambda>i. True) 1000 (issues s))))"

definition get_issue :: "string \<Rightarrow> db \<Rightarrow> error + document \<times> issue_update list" where
  "get_issue iid s =
     (case find_one (\<lambda>i. issue_id i = iid) (issues s) of
        None \<Rightarrow> Inl NotFound
      | Some i \<Rightarrow>
          Inr (hide_token i,
               take 100 (sort_key (\<lambda>u. - timestamp u)
                 (filter (\<lambda>u. upd_issue_id u = iid) (issue_updates s)))))"

text \<open>
  \<open>IssueUpdate(...)\<close> draws \<open>update_id\<close> from \<open>uuid4\<close> and \<open>timestamp\<close> from the
  clock; \<open>content_url\<close> keeps its default. Its document holds no integer (the
  timestamp is stored as a string), so inserting it cannot overflow and is an append.
\<close>

definition IssueUpdate ::
  "string \<times> instant \<Rightarrow> string \<Rightarrow> string \<Rightarrow> string \<Rightarrow> string option \<Rightarrow> issue_update" where
  "IssueUpdate fresh iid r ct txt =
     \<lparr>update_id = fst fresh, upd_issue_id = iid, upd_role = r, content_type = ct,
      content_text = txt, content_url = None, timestamp = snd fresh\<rparr>"

definition add_update ::
  "string \<times> instant \<Rightarrow> user \<Rightarrow> string \<Rightarrow> string \<Rightarrow> string option \<Rightarrow> db \<Rightarrow>
   db \<times> (error + string)" where
  "add_update fresh current_user iid ct txt s =
     (if role current_user = ''Student'' then
        (s, Inl (HTTPException 403 ''Students cannot update issues''))
      else
        case find_one (\<lambda>i. issue_id i = iid) (issues s) of
          None \<Rightarrow> (s, Inl NotFound)
        | Some i \<Rightarrow>
            (s\<lparr>issue_updates :=
                 issue_updates s @ [IssueUpdate fresh iid (role current_user) ct txt],
               issues :=
                 update_one (\<lambda>i. issue_id i = iid) (\<lambda>i. i\<lparr>status := ''In Progress''\<rparr>)
                   (issues s)\<rparr>,
             Inr ''Update added successfully''))"

text \<open>\<open>escalate_req.reason or 'Manual escalation'\<close>: \<open>None\<close> and the empty string are falsy.\<close>

definition reason_or_default :: "string option \<Rightarrow> string" where
  "reason_or_default r =
     (case r of None \<Rightarrow> ''Manual escalation''
      | Some t \<Rightarrow> if t = [] then ''Manual escalation'' else t)"

definition escalated_to :: "string \<Rightarrow> issue \<Rightarrow> issue" where
  "escalated_to next_role i = i\<lparr>assigned_role := next_role, status := ''Escalated''\<rparr>"

definition escalate_issue ::
  "string \<times> instant \<Rightarrow> user \<Rightarrow> string \<Rightarrow> string option \<Rightarrow> db \<Rightarrow>
   db \<times> (error + string)" where
  "escalate_issue fresh current_user iid reason s =
     (if role current_user = ''Student'' then
        (s, Inl (HTTPException 403 ''Students cannot escalate issues''))
      else
        case find_one (\<lambda>i. issue_id i = iid) (issues s) of
          None \<Rightarrow> (s, Inl NotFound)
        | Some i \<Rightarrow>
            let hierarchy = get_role_hierarchy (category i);
                idx = current_index hierarchy (assigned_role i)
            in if idx \<ge> int (length hierarchy) - 1 then (s, Inl AtCeiling)
               else
                 let next_role = hierarchy ! nat (idx + 1) in
                 (s\<lparr>issues :=
                      update_one (\<lambda>i. issue_id i = iid) (escalated_to next_role) (issues s),
                    issue_updates :=
                      issue_updates s @
                        [IssueUpdate fresh iid (role current_user) ''text''
                           (Some (''Escalated to '' @ next_role @ ''. Reason: '' @
                                  reason_or_default reason))]\<rparr>,
                  Inr (''Issue escalated to '' @ next_role)))"

text \<open>
  The loop of \<open>check_escalation\<close> runs over the documents fetched before it starts;
  \<open>fresh k\<close> is what \<open>uuid4\<close> and the clock give to the update of the \<open>k\<close>-th
  escalation.
\<close>

fun sweep_loop :: "(nat \<Rightarrow> string \<times> instant) \<Rightarrow> issue list \<Rightarrow> db \<Rightarrow> nat \<Rightarrow> db \<times> nat" where
  "sweep_loop fresh [] s escalated_count = (s, escalated_count)"
| "sweep_loop fresh (i # rest) s escalated_count =
     (let hierarchy = get_role_hierarchy (category i);
          idx = current_index hierarchy (assigned_role i)
      in if idx < int (length hierarchy) - 1 then
           let next_role = hierarchy ! nat (idx + 1);
               s' = s\<lparr>issues :=
                        update_one (\<lambda>j. issue_id j = issue_id i) (escalated_to next_role)
                          (issues s),
                      issue_updates :=
                        issue_updates s @
                          [IssueUpdate (fresh escalated_count) (issue_id i) ''System'' ''text''
                             (Some (''Auto-escalated to '' @ next_role @
                                    '' due to SLA breach''))]\<rparr>
           in sweep_loop fresh rest s' (escalated_count + 1)
         else sweep_loop fresh rest s escalated_count)"

definition overdue :: "instant \<Rightarrow> issue \<Rightarrow> bool" where
  "overdue now i \<longleftrightarrow> status i \<in> set [''Open'', ''In Progress''] \<and> sla_deadline i < now"

definition check_escalation :: "(nat \<Rightarrow> string \<times> instant) \<Rightarrow> instant \<Rightarrow> db \<Rightarrow> db \<times> nat" where
  "check_escalation fresh now s =
     sweep_loop fresh (find_to_list (overdue now) 1000 (issues s)) s 0"

section \<open>Example data\<close>

text \<open>
  A store with two issues of the category Hostel, whose chain is Warden, Admin,
  Principal: the first is assigned to the last role of the chain, the second to a
  role the chain does not have.
\<close>

definition st0 :: db where
  "st0 = \<lparr>issues =
      [\<lparr>issue_id = ''i1'', category = ''Hostel'', summary = ''no hot water'',
        original_text = ''No hot water!'', status = ''Open'', urgency_score = 40,
        assigned_role = ''Principal'', frequency_count = 1, created_at = 0,
        sla_deadline = 10, anon_token = ''abc'', evidence_urls = []\<rparr>,
       \<lparr>issue_id = ''i2'', category = ''Hostel'', summary = ''broken window'',
        original_text = ''Broken window'', status = ''Open'', urgency_score = 20,
        assigned_role = ''Staff'', frequency_count = 1, created_at = 0,
        sla_deadline = 10, anon_token = ''abd'', evidence_urls = []\<rparr>],
     issue_updates = []\<rparr>"

definition staff :: user where
  "staff = \<lparr>uid = ''u1'', email = ''w@x'', name = ''W'', role = ''Warden'', department = None\<rparr>"

text \<open>
  A student, a stand-in for the library functions (the digest reverses its input, the
  calendar tells day 0 from the other days, the case folding is that of the letters of
  ASCII, which all summaries below are written in), the values \<open>submit_feedback\<close>
  draws from the clock and \<open>uuid4\<close>, a store with an open and a resolved issue,
  and four replies of the language model.
\<close>

definition student :: user where
  "student = \<lparr>uid = ''s1'', email = ''s@x'', name = ''S'', role = ''Student'', department = None\<rparr>"

definition ascii_lower_char :: "char \<Rightarrow> char" where
  "ascii_lower_char c =
     (case map_of (zip ''ABCDEFGHIJKLMNOPQRSTUVWXYZ'' ''abcdefghijklmnopqrstuvwxyz'') c of
        Some l \<Rightarrow> l
      | None \<Rightarrow> c)"

definition toy_platform :: platform where
  "toy_platform =
     \<lparr>sha256_hexdigest = rev,
      strftime_Ymd = (\<lambda>d. if d = 0 then ''19700101'' else ''19700102''),
      str_lower = map ascii_lower_char\<rparr>"

definition env0 :: submit_env where
  "env0 = \<lparr>now_token = 1000, now_sla = 1001, uuid4 = ''n1'', now_created = 1007\<rparr>"

definition st1 :: db where
  "st1 = \<lparr>issues =
      [\<lparr>issue_id = ''a1'', category = ''Academics'', summary = ''Projector broken in room 5'',
        original_text = ''The projector is dead'', status = ''Open'', urgency_score = 40,
        assigned_role = ''Staff'', frequency_count = 1, created_at = 0,
        sla_deadline = 100, anon_token = ''abc'', evidence_urls = []\<rparr>,
       \<lparr>issue_id = ''b1'', category = ''Academics'', summary = ''Library closes early'',
        original_text = ''Library closes too early'', status = ''Resolved'', urgency_score = 20,
        assigned_role = ''HoD'', frequency_count = 3, created_at = 0,
        sla_deadline = 100, anon_token = ''abd'', evidence_urls = []\<rparr>],
     issue_updates = []\<rparr>"

definition gw_projector :: "string \<Rightarrow> moderation option" where
  "gw_projector t = Some \<lparr>is_appropriate = True, rewritten_text = t, mod_urgency_score = 35,
     mod_summary = ''projector BROKEN''\<rparr>"

definition gw_wifi :: "string \<Rightarrow> moderation option" where
  "gw_wifi t = Some \<lparr>is_appropriate = True, rewritten_text = t, mod_urgency_score = 60,
     mod_summary = ''Wifi down''\<rparr>"

definition gw_abusive :: "string \<Rightarrow> moderation option" where
  "gw_abusive t = Some \<lparr>is_appropriate = False, rewritten_text = t, mod_urgency_score = 0,
     mod_summary = ''abuse''\<rparr>"


text \<open>
  A store with 101 open issues of the category Food: one hundred that do not mention
  the wifi, followed by one that does.
\<close>

definition filler :: "nat \<Rightarrow> issue" where
  "filler n = \<lparr>issue_id = replicate (Suc n) CHR ''f'', category = ''Food'',
        summary = ''Cold lunch'', original_text = ''Lunch was cold'', status = ''Open'',
        urgency_score = 10, assigned_role = ''Staff'', frequency_count = 1, created_at = 0,
        sla_deadline = 100, anon_token = ''abc'', evidence_urls = []\<rparr>"

definition late_match :: issue where
  "late_match = \<lparr>issue_id = ''late'', category = ''Food'',
        summary = ''No wifi down in the canteen'', original_text = ''No wifi'', status = ''Open'',
        urgency_score = 10, assigned_role = ''Staff'', frequency_count = 1, created_at = 0,
        sla_deadline = 100, anon_token = ''abc'', evidence_urls = []\<rparr>"

definition crowded :: db where
  "crowded = \<lparr>issues = map filler [0..<100] @ [late_match], issue_updates = []\<rparr>"

text \<open>
  Two members of staff, and a store whose only issue is open, past its deadline at
  instant 101 and assigned to the first role of the chain of Academics.
\<close>

definition teacher :: user where
  "teacher = \<lparr>uid = ''t1'', email = ''t@x'', name = ''T'', role = ''Staff'', department = None\<rparr>"

definition admin :: user where
  "admin = \<lparr>uid = ''r1'', email = ''r@x'', name = ''R'', role = ''Admin'', department = None\<rparr>"

definition st3 :: db where
  "st3 = \<lparr>issues = [issues st1 ! 0], issue_updates = []\<rparr>"

section \<open>Store primitives and the escalation chains\<close>

lemma update_one_length: "length (update_one p f xs) = length xs"
  by (induction xs) auto

lemma update_one_nth_other:
  "k < length xs \<Longrightarrow> \<not> p (xs ! k) \<Longrightarrow> update_one p f xs ! k = xs ! k"
  by (induction xs arbitrary: k) (auto simp: nth_Cons split: nat.splits)

lemma hierarchy_cases:
  "get_role_hierarchy c = [''Staff'', ''HoD'', ''Admin'', ''Principal''] \<or>
   get_role_hierarchy c = [''Warden'', ''Admin'', ''Principal''] \<or>
   get_role_hierarchy c = [''Staff'', ''Admin'', ''Principal'']"
  by (simp add: get_role_hierarchy_def hierarchies_def)

lemma hierarchy_distinct: "distinct (get_role_hierarchy c)"
  using hierarchy_cases [of c] by auto

lemma hierarchy_nonempty: "get_role_hierarchy c \<noteq> []"
  using hierarchy_cases [of c] by auto

lemma index_of_last:
  "distinct xs \<Longrightarrow> xs \<noteq> [] \<Longrightarrow> index_of xs (last xs) = int (length xs) - 1"
  by (induction xs) auto

section \<open>Escalation at the end of the chain\<close>

lemma find_one_update_one:
  "find_one p xs = Some x \<Longrightarrow> p (f x) \<Longrightarrow> find_one p (update_one p f xs) = Some (f x)"
  by (induction xs) (auto split: if_splits)

lemma at_last_index:
  "current_index (get_role_hierarchy c) (last (get_role_hierarchy c)) =
   int (length (get_role_hierarchy c)) - 1"
  by (simp add: current_index_def hierarchy_nonempty hierarchy_distinct index_of_last)

lemma sweep_loop_preserves:
  assumes "k < length (issues s)"
    and "\<forall>j \<in> set todo. issue_id j = issue_id (issues s ! k) \<longrightarrow>
           \<not> current_index (get_role_hierarchy (category j)) (assigned_role j)
               < int (length (get_role_hierarchy (category j))) - 1"
  shows "issues (fst (sweep_loop fresh todo s n)) ! k = issues s ! k \<and>
         length (issues (fst (sweep_loop fresh todo s n))) = length (issues s) \<and>
         filter (\<lambda>v. upd_issue_id v = issue_id (issues s ! k))
           (issue_updates (fst (sweep_loop fresh todo s n))) =
         filter (\<lambda>v. upd_issue_id v = issue_id (issues s ! k)) (issue_updates s)"
  using assms
proof (induction todo arbitrary: s n)
  case Nil
  then show ?case by simp
next
  case (Cons i rest)
  let ?h = "get_role_hierarchy (category i)"
  let ?idx = "current_index ?h (assigned_role i)"
  show ?case
  proof (cases "?idx < int (length ?h) - 1")
    case False
    then have "sweep_loop fresh (i # rest) s n = sweep_loop fresh rest s n"
      by (simp add: Let_def)
    with Cons show ?thesis by simp
  next
    case True
    define s' where "s' = s\<lparr>issues :=
        update_one (\<lambda>j. issue_id j = issue_id i) (escalated_to (?h ! nat (?idx + 1))) (issues s),
      issue_updates := issue_updates s @
        [IssueUpdate (fresh n) (issue_id i) ''System'' ''text''
           (Some (''Auto-escalated to '' @ ?h ! nat (?idx + 1) @ '' due to SLA breach''))]\<rparr>"
    from True have step: "sweep_loop fresh (i # rest) s n = sweep_loop fresh rest s' (n + 1)"
      by (simp add: Let_def s'_def)
    from True Cons.prems have ne: "issue_id i \<noteq> issue_id (issues s ! k)"
      by auto
    have same: "issues s' ! k = issues s ! k"
      using Cons.prems(1) ne by (simp add: s'_def update_one_nth_other)
    have len: "length (issues s') = length (issues s)"
      by (simp add: s'_def update_one_length)
    have upd: "filter (\<lambda>v. upd_issue_id v = issue_id (issues s ! k)) (issue_updates s') =
               filter (\<lambda>v. upd_issue_id v = issue_id (issues s ! k)) (issue_updates s)"
      using ne by (simp add: s'_def IssueUpdate_def)
    have "issues (fst (sweep_loop fresh rest s' (n + 1))) ! k = issues s' ! k \<and>
         length (issues (fst (sweep_loop fresh rest s' (n + 1)))) = length (issues s') \<and>
         filter (\<lambda>v. upd_issue_id v = issue_id (issues s' ! k))
           (issue_updates (fst (sweep_loop fresh rest s' (n + 1)))) =
         filter (\<lambda>v. upd_issue_id v = issue_id (issues s' ! k)) (issue_updates s')"
      using Cons.prems by (intro Cons.IH) (simp_all add: same len)
    then show ?thesis
      by (simp only: step same len upd)
  qed
qed

lemma distinct_ids_eq:
  "distinct (map issue_id xs) \<Longrightarrow> j \<in> set xs \<Longrightarrow> k < length xs \<Longrightarrow>
   issue_id j = issue_id (xs ! k) \<Longrightarrow> j = xs ! k"
  by (metis distinct_map inj_on_def nth_mem)

lemma escalate_last:
  assumes "role u \<noteq> ''Student''"
    and "find_one (\<lambda>j. issue_id j = iid) (issues s) = Some i"
    and "assigned_role i = last (get_role_hierarchy (category i))"
  shows "escalate_issue fresh u iid reason s = (s, Inl AtCeiling)"
  using assms at_last_index [of "category i"] by (simp add: escalate_issue_def Let_def)

lemma sweep_last:
  assumes "distinct (map issue_id (issues s))" and "k < length (issues s)"
    and "assigned_role (issues s ! k) = last (get_role_hierarchy (category (issues s ! k)))"
  shows "issues (fst (check_escalation freshes now s)) ! k = issues s ! k \<and>
         length (issues (fst (check_escalation freshes now s))) = length (issues s) \<and>
         filter (\<lambda>v. upd_issue_id v = issue_id (issues s ! k))
           (issue_updates (fst (check_escalation freshes now s))) =
         filter (\<lambda>v. upd_issue_id v = issue_id (issues s ! k)) (issue_updates s)"
proof -
  have "\<forall>j \<in> set (find_to_list (overdue now) 1000 (issues s)).
          issue_id j = issue_id (issues s ! k) \<longrightarrow>
           \<not> current_index (get_role_hierarchy (category j)) (assigned_role j)
               < int (length (get_role_hierarchy (category j))) - 1"
  proof (intro ballI impI)
    fix j
    assume "j \<in> set (find_to_list (overdue now) 1000 (issues s))"
      and e: "issue_id j = issue_id (issues s ! k)"
    then have "j \<in> set (issues s)"
      by (auto simp: find_to_list_def dest: in_set_takeD)
    with assms e have "j = issues s ! k"
      by (simp add: distinct_ids_eq)
    with assms show "\<not> current_index (get_role_hierarchy (category j)) (assigned_role j)
               < int (length (get_role_hierarchy (category j))) - 1"
      using at_last_index [of "category j"] by simp
  qed
  with assms(2) show ?thesis
    unfolding check_escalation_def by (intro sweep_loop_preserves) simp_all
qed

lemma escalate_absent:
  assumes "role u \<noteq> ''Student''"
    and "find_one (\<lambda>j. issue_id j = iid) (issues s) = Some i"
    and "assigned_role i \<notin> set (get_role_hierarchy (category i))"
  shows "snd (escalate_issue fresh u iid reason s) =
            Inr (''Issue escalated to '' @ get_role_hierarchy (category i) ! 0) \<and>
          find_one (\<lambda>j. issue_id j = iid) (issues (fst (escalate_issue fresh u iid reason s))) =
            Some (i\<lparr>assigned_role := get_role_hierarchy (category i) ! 0,
                    status := ''Escalated''\<rparr>)"
proof -
  have idx: "current_index (get_role_hierarchy (category i)) (assigned_role i) = - 1"
    using assms by (simp add: current_index_def)
  have pos: "\<not> (- 1 :: int) \<ge> int (length (get_role_hierarchy (category i))) - 1"
    using hierarchy_nonempty [of "category i"] by (cases "get_role_hierarchy (category i)") auto
  from assms have id: "issue_id i = iid"
    by (auto simp: find_Some_iff)
  show ?thesis
    using assms idx pos id
    by (simp add: escalate_issue_def Let_def find_one_update_one escalated_to_def)
qed

text \<open>
  Claim C1, as the code has it. When the assigned role of an issue is the last role
  of the chain of its category, \<open>escalate_issue\<close> raises "Already at highest level"
  and returns the store as it was, and \<open>check_escalation\<close> on a store with distinct
  issue ids leaves the issue, the number of issues and the updates of that issue as
  they were. A role that is absent from the chain is not at the ceiling: its index is
  \<open>-1\<close>, so \<open>escalate_issue\<close> succeeds and assigns the first role of the chain
  with the status Escalated.
\<close>

theorem escalate_at_ceiling:
  "(role u \<noteq> ''Student'' \<and> find_one (\<lambda>j. issue_id j = iid) (issues s) = Some i \<and>
      assigned_role i = last (get_role_hierarchy (category i))
      \<longrightarrow> escalate_issue fresh u iid reason s = (s, Inl AtCeiling)) \<and>
   (distinct (map issue_id (issues s)) \<and> k < length (issues s) \<and>
      assigned_role (issues s ! k) = last (get_role_hierarchy (category (issues s ! k)))
      \<longrightarrow> issues (fst (check_escalation freshes now s)) ! k = issues s ! k \<and>
          length (issues (fst (check_escalation freshes now s))) = length (issues s) \<and>
          filter (\<lambda>v. upd_issue_id v = issue_id (issues s ! k))
            (issue_updates (fst (check_escalation freshes now s))) =
          filter (\<lambda>v. upd_issue_id v = issue_id (issues s ! k)) (issue_updates s)) \<and>
   (role u \<noteq> ''Student'' \<and> find_one (\<lambda>j. issue_id j = iid) (issues s) = Some i \<and>
      assigned_role i \<notin> set (get_role_hierarchy (category i))
      \<longrightarrow> snd (escalate_issue fresh u iid reason s) =
            Inr (''Issue escalated to '' @ get_role_hierarchy (category i) ! 0) \<and>
          find_one (\<lambda>j. issue_id j = iid) (issues (fst (escalate_issue fresh u iid reason s))) =
            Some (i\<lparr>assigned_role := get_role_hierarchy (category i) ! 0,
                    status := ''Escalated''\<rparr>))"
  using escalate_last [of u iid s i fresh reason] sweep_last [of s k freshes now]
    escalate_absent [of u iid s i fresh reason]
  by blast

theorem escalate_at_ceiling_witness:
  "escalate_issue (''up1'', 5) staff ''i1'' None st0 = (st0, Inl AtCeiling) \<and>
   issues (fst (check_escalation (\<lambda>k. (''up'', 5)) 11 st0)) ! 0 = issues st0 ! 0 \<and>
   snd (escalate_issue (''up1'', 5) staff ''i2'' None st0) = Inr ''Issue escalated to Warden''"
proof -
  have r: "role staff \<noteq> ''Student''"
    by (simp add: staff_def)
  have f1: "find_one (\<lambda>j. issue_id j = ''i1'') (issues st0) = Some (issues st0 ! 0)"
    by (simp add: st0_def)
  have f2: "find_one (\<lambda>j. issue_id j = ''i2'') (issues st0) = Some (issues st0 ! 1)"
    by (simp add: st0_def)
  have c1: "assigned_role (issues st0 ! 0) = last (get_role_hierarchy (category (issues st0 ! 0)))"
    by (simp add: st0_def get_role_hierarchy_def hierarchies_def)
  have c2: "assigned_role (issues st0 ! 1) \<notin> set (get_role_hierarchy (category (issues st0 ! 1)))"
    by (simp add: st0_def get_role_hierarchy_def hierarchies_def)
  have d: "distinct (map issue_id (issues st0))" and l: "0 < length (issues st0)"
    by (simp_all add: st0_def)
  have h: "get_role_hierarchy (category (issues st0 ! 1)) ! 0 = ''Warden''"
    by (simp add: st0_def get_role_hierarchy_def hierarchies_def)
  from escalate_at_ceiling [of staff "''i1''" st0 "issues st0 ! 0" "(''up1'', 5)" None 0
      "\<lambda>k. (''up'', 5)" 11] r f1 c1 d l
  have a: "escalate_issue (''up1'', 5) staff ''i1'' None st0 = (st0, Inl AtCeiling) \<and>
   issues (fst (check_escalation (\<lambda>k. (''up'', 5)) 11 st0)) ! 0 = issues st0 ! 0"
    by blast
  from escalate_at_ceiling [of staff "''i2''" st0 "issues st0 ! 1" "(''up1'', 5)" None 0
      "\<lambda>k. (''up'', 5)" 11] r f2 c2
  have "snd (escalate_issue (''up1'', 5) staff ''i2'' None st0) = 
     Inr (''Issue escalated to '' @ get_role_hierarchy (category (issues st0 ! 1)) ! 0)"
    by blast
  with a h show ?thesis by simp
qed

text \<open>
  The claim C1 as the specification states it fails for a role absent from the chain:
  the Hostel issue assigned to Staff is escalated to Warden by \<open>escalate_issue\<close>
  and by \<open>check_escalation\<close>.
\<close>

theorem escalate_absent_role_counterexample:
  "assigned_role (issues st0 ! 1) \<notin> set (get_role_hierarchy (category (issues st0 ! 1))) \<and>
   escalate_issue (''up1'', 5) staff ''i2'' None st0 \<noteq> (st0, Inl AtCeiling) \<and>
   assigned_role (issues (fst (escalate_issue (''up1'', 5) staff ''i2'' None st0)) ! 1) = ''Warden'' \<and>
   assigned_role (issues (fst (check_escalation (\<lambda>k. (''up'', 5)) 11 st0)) ! 1) = ''Warden''"
  by (simp add: escalate_issue_def check_escalation_def find_to_list_def overdue_def
      st0_def staff_def get_role_hierarchy_def hierarchies_def current_index_def Let_def
      escalated_to_def)

section \<open>Submitting feedback\<close>

lemma update_one_distinct:
  "distinct (map key xs) \<Longrightarrow> x \<in> set xs \<Longrightarrow>
   update_one (\<lambda>i. key i = key x) f xs = map (\<lambda>i. if i = x then f i else i) xs"
proof (induction xs)
  case Nil
  then show ?case by simp
next
  case (Cons a xs)
  show ?case
  proof (cases "key a = key x")
    case True
    with Cons.prems have ax: "a = x"
      by (auto simp: image_iff)
    with Cons.prems have "x \<notin> set xs" by auto
    then have "map (\<lambda>i. if i = x then f i else i) xs = xs"
      by (induction xs) auto
    with True ax show ?thesis by simp
  next
    case False
    with Cons show ?thesis by auto
  qed
qed

lemma existing_issues_take:
  "existing_issues c s =
   take 100 (filter (\<lambda>i. category i = c \<and> status i \<noteq> ''Resolved'') (issues s))"
  by (simp add: existing_issues_def find_to_list_def)

lemma existing_issues_subset: "e \<in> set (existing_issues c s) \<Longrightarrow> e \<in> set (issues s)"
  by (auto simp: existing_issues_take dest: in_set_takeD)

lemma submit_similar:
  assumes "role u = ''Student''" and "is_appropriate (moderate_with_gemini gw text)"
    and "find_one (is_similar pf (moderate_with_gemini gw text)) (existing_issues cat s) = Some e"
  shows "submit_feedback pf gw env u cat text ev s =
     (s\<lparr>issues := update_one (\<lambda>i. issue_id i = issue_id e)
                     (\<lambda>i. i\<lparr>frequency_count := frequency_count i + 1\<rparr>) (issues s)\<rparr>,
      Inr (''Similar issue already reported'', issue_id e))"
  using assms by (simp add: submit_feedback_def Let_def)

lemma hierarchy_first:
  "(case get_role_hierarchy c of [] \<Rightarrow> ''Staff'' | r # _ \<Rightarrow> r) = get_role_hierarchy c ! 0"
  using hierarchy_nonempty [of c] by (cases "get_role_hierarchy c") simp_all

lemma bson_int_one: "bson_int 1"
  by (simp add: bson_int_def)

lemma submit_fresh:
  assumes "role u = ''Student''" and "is_appropriate (moderate_with_gemini gw text)"
    and "find_one (is_similar pf (moderate_with_gemini gw text)) (existing_issues cat s) = None"
    and "bson_int (mod_urgency_score (moderate_with_gemini gw text))"
  shows "submit_feedback pf gw env u cat text ev s =
     (s\<lparr>issues := issues s @
          [Issue (uuid4 env, now_created env) cat (mod_summary (moderate_with_gemini gw text)) text
             (mod_urgency_score (moderate_with_gemini gw text)) (get_role_hierarchy cat ! 0)
             (now_sla env + timedelta_days 2)
             (generate_anon_token pf (now_token env) (uid u))
             (case ev of None \<Rightarrow> [] | Some es \<Rightarrow> es)]\<rparr>,
      Inr (''Feedback submitted successfully'', uuid4 env))"
  using assms
  by (simp add: submit_feedback_def Let_def hierarchy_first Issue_def insert_one_def bson_int_one)

lemma submit_overflow:
  assumes "role u = ''Student''" and "is_appropriate (moderate_with_gemini gw text)"
    and "find_one (is_similar pf (moderate_with_gemini gw text)) (existing_issues cat s) = None"
    and "\<not> bson_int (mod_urgency_score (moderate_with_gemini gw text))"
  shows "submit_feedback pf gw env u cat text ev s = (s, Inl OverflowError)"
  using assms
  by (simp add: submit_feedback_def Let_def Issue_def insert_one_def)

lemma find_one_first:
  "\<forall>x \<in> set before. \<not> p x \<Longrightarrow> p e \<Longrightarrow> find_one p (before @ e # rest) = Some e"
  by (induction before) auto

text \<open>
  Claim C2, as the code has it. A student submits feedback that passes moderation,
  the store has distinct issue ids, and \<open>e\<close> is the first issue whose stored summary
  contains the moderated summary (both lowered by \<open>str.lower\<close>) among the first 100
  issues of the category that are not Resolved, in store order. Then
  \<open>submit_feedback\<close> adds 1 to the frequency count of \<open>e\<close>, changes nothing else,
  creates no issue and returns the id of \<open>e\<close>.
\<close>

theorem submit_duplicate:
  assumes "role u = ''Student''"
    and "moderate_with_gemini gw text = m" and "is_appropriate m"
    and "distinct (map issue_id (issues s))"
    and "take 100 (filter (\<lambda>i. category i = cat \<and> status i \<noteq> ''Resolved'') (issues s)) =
           before @ e # rest"
    and "\<forall>x \<in> set before. \<not> is_similar pf m x" and "is_similar pf m e"
  shows "submit_feedback pf gw env u cat text ev s =
     (s\<lparr>issues := map (\<lambda>i. if i = e then i\<lparr>frequency_count := frequency_count i + 1\<rparr> else i)
                     (issues s)\<rparr>,
      Inr (''Similar issue already reported'', issue_id e))"
proof -
  have ex: "existing_issues cat s = before @ e # rest"
    using assms(5) by (simp add: existing_issues_take)
  have f: "find_one (is_similar pf (moderate_with_gemini gw text)) (existing_issues cat s) = Some e"
    using assms(2,6,7) by (simp add: ex find_one_first)
  have "e \<in> set (existing_issues cat s)"
    by (simp add: ex)
  then have "e \<in> set (issues s)"
    by (rule existing_issues_subset)
  with assms(4) have "update_one (\<lambda>i. issue_id i = issue_id e)
      (\<lambda>i. i\<lparr>frequency_count := frequency_count i + 1\<rparr>) (issues s) =
      map (\<lambda>i. if i = e then i\<lparr>frequency_count := frequency_count i + 1\<rparr> else i) (issues s)"
    by (rule update_one_distinct)
  with submit_similar [OF assms(1) _ f, of env ev] assms(2,3) show ?thesis
    by simp
qed

lemma st1_academics:
  "take 100 (filter (\<lambda>i. category i = ''Academics'' \<and> status i \<noteq> ''Resolved'') (issues st1)) =
   [] @ issues st1 ! 0 # []"
  by (simp add: st1_def)

lemma lower_projector:
  "str_lower toy_platform ''projector BROKEN'' = ''projector broken'' \<and>
   str_lower toy_platform ''Projector broken in room 5'' = ''projector broken in room 5''"
  by (simp add: toy_platform_def ascii_lower_char_def)

theorem submit_duplicate_witness:
  "submit_feedback toy_platform gw_projector env0 student ''Academics'' ''Projector is broken!!'' None st1 =
     (st1\<lparr>issues := [(issues st1 ! 0)\<lparr>frequency_count := 2\<rparr>, issues st1 ! 1]\<rparr>,
      Inr (''Similar issue already reported'', ''a1''))"
proof -
  let ?m = "\<lparr>is_appropriate = True, rewritten_text = ''Projector is broken!!'',
     mod_urgency_score = 35, mod_summary = ''projector BROKEN''\<rparr>"
  have r: "role student = ''Student''"
    by (simp add: student_def)
  have g: "moderate_with_gemini gw_projector ''Projector is broken!!'' = ?m"
    by (simp add: moderate_with_gemini_def gw_projector_def)
  have a: "is_appropriate ?m"
    by simp
  have d: "distinct (map issue_id (issues st1))"
    by (simp add: st1_def)
  have n: "\<forall>x \<in> set []. \<not> is_similar toy_platform ?m x"
    by simp
  have sim: "is_similar toy_platform ?m (issues st1 ! 0)"
    by (simp add: is_similar_def st1_def lower_projector sublist_code)
  from submit_duplicate [OF r g a d st1_academics n sim, of env0 None]
  show ?thesis
    by (simp add: st1_def)
qed

lemma crowded_food:
  "filter (\<lambda>i. category i = ''Food'' \<and> status i \<noteq> ''Resolved'') (issues crowded) =
   map filler [0..<100] @ [late_match]"
  by (simp add: crowded_def filler_def late_match_def filter_map comp_def del: upt_rec_numeral)

lemma crowded_existing: "existing_issues ''Food'' crowded = map filler [0..<100]"
  by (simp add: existing_issues_take crowded_food del: upt_rec_numeral)

lemma lower_wifi:
  "str_lower toy_platform ''Wifi down'' = ''wifi down'' \<and>
   str_lower toy_platform ''Cold lunch'' = ''cold lunch'' \<and>
   str_lower toy_platform ''No wifi down in the canteen'' = ''no wifi down in the canteen''"
  by (simp add: toy_platform_def ascii_lower_char_def)

lemma wifi_not_in_fillers:
  "mod_summary m = ''Wifi down'' \<Longrightarrow>
   \<forall>e \<in> set (map filler [0..<100]). \<not> is_similar toy_platform m e"
  by (simp add: is_similar_def filler_def lower_wifi sublist_code del: upt_rec_numeral)

lemma wifi_in_late_match: "mod_summary m = ''Wifi down'' \<Longrightarrow> is_similar toy_platform m late_match"
  by (simp add: is_similar_def late_match_def lower_wifi sublist_code)

lemma gw_wifi_reply:
  "moderate_with_gemini gw_wifi t =
     \<lparr>is_appropriate = True, rewritten_text = t, mod_urgency_score = 60,
      mod_summary = ''Wifi down''\<rparr>"
  by (simp add: moderate_with_gemini_def gw_wifi_def)

lemma bson_int_60: "bson_int 60"
  by (simp add: bson_int_def)

text \<open>
  The claim C2 as the specification states it, for every matching issue of the
  category that is not Resolved, fails when the only match is the 101st such issue:
  \<open>to_list(100)\<close> never fetches it, \<open>submit_feedback\<close> leaves it as it was and
  creates a new issue.
\<close>

theorem submit_duplicate_beyond_100_counterexample:
  "late_match \<in> set (issues crowded) \<and> category late_match = ''Food'' \<and>
   status late_match \<noteq> ''Resolved'' \<and>
   is_similar toy_platform (moderate_with_gemini gw_wifi ''No wifi'') late_match \<and>
   length (issues (fst (submit_feedback toy_platform gw_wifi env0 student ''Food'' ''No wifi''
      None crowded))) = length (issues crowded) + 1 \<and>
   issues (fst (submit_feedback toy_platform gw_wifi env0 student ''Food'' ''No wifi''
      None crowded)) ! 100 = late_match \<and>
   snd (submit_feedback toy_platform gw_wifi env0 student ''Food'' ''No wifi'' None crowded) =
     Inr (''Feedback submitted successfully'', ''n1'')"
proof -
  have r: "role student = ''Student''"
    by (simp add: student_def)
  have a: "is_appropriate (moderate_with_gemini gw_wifi ''No wifi'')"
    by (simp add: gw_wifi_reply)
  have b: "bson_int (mod_urgency_score (moderate_with_gemini gw_wifi ''No wifi''))"
    by (simp add: gw_wifi_reply bson_int_60)
  have s: "is_similar toy_platform (moderate_with_gemini gw_wifi ''No wifi'') late_match"
    by (simp add: gw_wifi_reply wifi_in_late_match)
  have m: "late_match \<in> set (issues crowded) \<and> category late_match = ''Food'' \<and>
   status late_match \<noteq> ''Resolved''"
    by (simp add: crowded_def late_match_def)
  have f: "find_one (is_similar toy_platform (moderate_with_gemini gw_wifi ''No wifi''))
      (existing_issues ''Food'' crowded) = None"
    unfolding crowded_existing find_None_iff
    using wifi_not_in_fillers [of "moderate_with_gemini gw_wifi ''No wifi''"]
    by (simp add: gw_wifi_reply del: upt_rec_numeral set_upt)
  have l: "length (issues crowded) = 101" and k: "issues crowded ! 100 = late_match"
    by (simp_all add: crowded_def nth_append)
  note sub = submit_fresh [OF r a f b, of env0 None]
  have 1: "length (issues (fst (submit_feedback toy_platform gw_wifi env0 student ''Food''
      ''No wifi'' None crowded))) = length (issues crowded) + 1"
    by (simp add: sub)
  have 2: "issues (fst (submit_feedback toy_platform gw_wifi env0 student ''Food'' ''No wifi''
      None crowded)) ! 100 = late_match"
    by (simp add: sub nth_append l k)
  have 3: "snd (submit_feedback toy_platform gw_wifi env0 student ''Food'' ''No wifi'' None
      crowded) = Inr (''Feedback submitted successfully'', ''n1'')"
    by (simp only: sub snd_conv) (simp add: env0_def)
  from s m 1 2 3 show ?thesis
    by blast
qed

lemma no_similar_existing:
  assumes "\<forall>e \<in> set (issues s). category e = cat \<and> status e \<noteq> ''Resolved'' \<longrightarrow> \<not> is_similar pf m e"
  shows "find_one (is_similar pf m) (existing_issues cat s) = None"
  using assms
  by (auto simp: find_None_iff existing_issues_take dest!: in_set_takeD)

text \<open>
  Claim C4, as the code has it. A student submits feedback that passes moderation
  with an urgency score that fits 8 bytes, and no issue of the category that is not
  Resolved matches it. Then \<open>submit_feedback\<close> appends exactly one issue: status
  Open, frequency count 1, assigned to the first role of the chain of the category,
  urgency score and summary from the moderation, the original text as submitted. Its
  deadline is the clock reading \<open>submit_feedback\<close> takes for the deadline plus 2
  days; its \<open>created_at\<close> is another clock reading, the one the default factory of
  \<open>Issue\<close> takes.
\<close>

theorem submit_creates_issue:
  assumes "role u = ''Student''"
    and "moderate_with_gemini gw text = m" and "is_appropriate m"
    and "bson_int (mod_urgency_score m)"
    and "\<forall>e \<in> set (issues s). category e = cat \<and> status e \<noteq> ''Resolved'' \<longrightarrow> \<not> is_similar pf m e"
  shows "\<exists>ni. submit_feedback pf gw env u cat text ev s =
           (s\<lparr>issues := issues s @ [ni]\<rparr>,
            Inr (''Feedback submitted successfully'', issue_id ni)) \<and>
         issue_id ni = uuid4 env \<and> category ni = cat \<and> status ni = ''Open'' \<and>
         frequency_count ni = 1 \<and> assigned_role ni = get_role_hierarchy cat ! 0 \<and>
         urgency_score ni = mod_urgency_score m \<and> summary ni = mod_summary m \<and>
         original_text ni = text \<and>
         sla_deadline ni = now_sla env + timedelta_days 2 \<and> created_at ni = now_created env"
proof -
  have "find_one (is_similar pf (moderate_with_gemini gw text)) (existing_issues cat s) = None"
    using assms(2,5) by (simp add: no_similar_existing)
  from submit_fresh [OF assms(1) _ this, of env ev] assms(2,3,4)
  have "submit_feedback pf gw env u cat text ev s =
     (s\<lparr>issues := issues s @
          [Issue (uuid4 env, now_created env) cat (mod_summary m) text (mod_urgency_score m)
             (get_role_hierarchy cat ! 0) (now_sla env + timedelta_days 2)
             (generate_anon_token pf (now_token env) (uid u))
             (case ev of None \<Rightarrow> [] | Some es \<Rightarrow> es)]\<rparr>,
      Inr (''Feedback submitted successfully'', uuid4 env))"
    by simp
  then show ?thesis
    by (intro exI [of _ "Issue (uuid4 env, now_created env) cat (mod_summary m) text
             (mod_urgency_score m) (get_role_hierarchy cat ! 0) (now_sla env + timedelta_days 2)
             (generate_anon_token pf (now_token env) (uid u))
             (case ev of None \<Rightarrow> [] | Some es \<Rightarrow> es)"])
      (simp add: Issue_def)
qed

lemma wifi_not_in_st1:
  "mod_summary m = ''Wifi down'' \<Longrightarrow>
   \<forall>e \<in> set (issues st1).
      category e = ''Academics'' \<and> status e \<noteq> ''Resolved'' \<longrightarrow> \<not> is_similar toy_platform m e"
  by (simp add: st1_def is_similar_def toy_platform_def ascii_lower_char_def sublist_code)

theorem submit_creates_issue_witness:
  "\<exists>ni. submit_feedback toy_platform gw_wifi env0 student ''Academics'' ''wifi is down'' None st1 =
          (st1\<lparr>issues := issues st1 @ [ni]\<rparr>,
           Inr (''Feedback submitted successfully'', issue_id ni)) \<and>
        issue_id ni = ''n1'' \<and> category ni = ''Academics'' \<and> status ni = ''Open'' \<and>
        frequency_count ni = 1 \<and> assigned_role ni = ''Staff'' \<and> urgency_score ni = 60 \<and>
        summary ni = ''Wifi down'' \<and> original_text ni = ''wifi is down'' \<and>
        sla_deadline ni = 1001 + 2 * 86400000000 \<and> created_at ni = 1007"
proof -
  let ?m = "\<lparr>is_appropriate = True, rewritten_text = ''wifi is down'',
     mod_urgency_score = 60, mod_summary = ''Wifi down''\<rparr>"
  have r: "role student = ''Student''"
    by (simp add: student_def)
  have g: "moderate_with_gemini gw_wifi ''wifi is down'' = ?m"
    by (simp add: gw_wifi_reply)
  have a: "is_appropriate ?m"
    by simp
  have b: "bson_int (mod_urgency_score ?m)"
    by (simp add: bson_int_60)
  have n: "\<forall>e \<in> set (issues st1).
      category e = ''Academics'' \<and> status e \<noteq> ''Resolved'' \<longrightarrow> \<not> is_similar toy_platform ?m e"
    by (rule wifi_not_in_st1) simp
  have h: "get_role_hierarchy ''Academics'' ! 0 = ''Staff''"
    by (simp add: get_role_hierarchy_def hierarchies_def)
  from submit_creates_issue [OF r g a b n, of env0 None] h
  show ?thesis
    by (simp add: env0_def timedelta_days_def)
qed

text \<open>
  The claim C4 as the specification states it, with the deadline equal to the creation
  time plus 2 days, fails for the stored creation time: the two clock readings are
  1001 and 1007 here, and the deadline of the new issue is not its \<open>created_at\<close>
  plus 2 days.
\<close>

theorem sla_deadline_created_at_counterexample:
  "length (issues (fst (submit_feedback toy_platform gw_wifi env0 student ''Academics''
      ''wifi is down'' None st1))) = length (issues st1) + 1 \<and>
   sla_deadline (last (issues (fst (submit_feedback toy_platform gw_wifi env0 student
      ''Academics'' ''wifi is down'' None st1)))) \<noteq>
   created_at (last (issues (fst (submit_feedback toy_platform gw_wifi env0 student
      ''Academics'' ''wifi is down'' None st1)))) + timedelta_days 2"
proof -
  have r: "role student = ''Student''"
    by (simp add: student_def)
  have a: "is_appropriate (moderate_with_gemini gw_wifi ''wifi is down'')"
    by (simp add: gw_wifi_reply)
  have b: "bson_int (mod_urgency_score (moderate_with_gemini gw_wifi ''wifi is down''))"
    by (simp add: gw_wifi_reply bson_int_60)
  have f: "find_one (is_similar toy_platform (moderate_with_gemini gw_wifi ''wifi is down''))
      (existing_issues ''Academics'' st1) = None"
    by (rule no_similar_existing, rule wifi_not_in_st1) (simp add: gw_wifi_reply)
  show ?thesis
    by (simp only: submit_fresh [OF r a f b] fst_conv) (simp add: Issue_def env0_def)
qed



text \<open>
  Claim C6. When the moderation reply says the text is not appropriate,
  \<open>submit_feedback\<close> leaves the store as it was, and for a student it raises
  "Feedback contains inappropriate content".
\<close>

theorem submit_rejected:
  assumes "gw text = Some m" and "\<not> is_appropriate m"
  shows "fst (submit_feedback pf gw env u cat text ev s) = s \<and>
         (role u = ''Student'' \<longrightarrow>
            snd (submit_feedback pf gw env u cat text ev s) = Inl ContentRejected)"
  using assms by (simp add: submit_feedback_def moderate_with_gemini_def)

theorem submit_rejected_witness:
  "submit_feedback toy_platform gw_abusive env0 student ''Academics'' ''you fools'' None st1 =
     (st1, Inl ContentRejected)"
proof -
  have g: "gw_abusive ''you fools'' = Some \<lparr>is_appropriate = False, rewritten_text = ''you fools'',
     mod_urgency_score = 0, mod_summary = ''abuse''\<rparr>"
    by (simp add: gw_abusive_def)
  have r: "role student = ''Student''"
    by (simp add: student_def)
  have n: "\<not> is_appropriate \<lparr>is_appropriate = False, rewritten_text = ''you fools'',
     mod_urgency_score = 0, mod_summary = ''abuse''\<rparr>"
    by simp
  from submit_rejected [of gw_abusive "''you fools''" _ toy_platform env0 student "''Academics''"
      None st1, OF g n] r
  show ?thesis
    by (simp add: prod_eq_iff)
qed



section \<open>The sweep over overdue issues\<close>

lemma index_of_middle:
  "distinct (before @ r # rest) \<Longrightarrow> index_of (before @ r # rest) r = int (length before)"
  by (induction before) auto

lemma sweep_one:
  assumes "issues s = [i]" and "status i = ''Open''" and "sla_deadline i < now"
    and "get_role_hierarchy (category i) = before @ assigned_role i # nxt # rest"
  shows "check_escalation fresh now s =
     (s\<lparr>issues := [i\<lparr>assigned_role := nxt, status := ''Escalated''\<rparr>],
        issue_updates := issue_updates s @
          [IssueUpdate (fresh 0) (issue_id i) ''System'' ''text''
             (Some (''Auto-escalated to '' @ nxt @ '' due to SLA breach''))]\<rparr>, 1)"
proof -
  let ?h = "get_role_hierarchy (category i)"
  have d: "distinct (before @ assigned_role i # nxt # rest)"
    using hierarchy_distinct [of "category i"] assms(4) by simp
  have idx: "current_index ?h (assigned_role i) = int (length before)"
    using assms(4) index_of_middle [OF d] by (simp add: current_index_def)
  have nxt: "?h ! nat (int (length before) + 1) = nxt"
    using assms(4) by (simp add: nat_add_distrib nth_append)
  have lt: "int (length before) < int (length ?h) - 1"
    using assms(4) by simp
  have todo: "find_to_list (overdue now) 1000 (issues s) = [i]"
    using assms(1-3) by (simp add: find_to_list_def overdue_def)
  show ?thesis
    unfolding check_escalation_def todo
    using idx nxt lt assms(1) by (simp add: Let_def escalated_to_def)
qed

lemma sweep_nothing_overdue:
  "\<forall>i \<in> set (issues s). \<not> overdue now i \<Longrightarrow> check_escalation fresh now s = (s, 0)"
  by (simp add: check_escalation_def find_to_list_def filter_False)

text \<open>
  Claim C3. The store holds one issue, it is Open, its deadline is before \<open>now\<close>,
  and its assigned role is followed by \<open>nxt\<close> in the chain of its category. Then
  \<open>check_escalation\<close> assigns \<open>nxt\<close>, sets the status Escalated, appends exactly
  one update, whose author is System and which belongs to the issue, and counts 1; a
  second sweep at the same \<open>now\<close> changes nothing and counts 0.
\<close>

theorem sweep_single_overdue:
  assumes "issues s = [i]" and "status i = ''Open''" and "sla_deadline i < now"
    and "get_role_hierarchy (category i) = before @ assigned_role i # nxt # rest"
  shows "check_escalation fresh now s =
           (s\<lparr>issues := [i\<lparr>assigned_role := nxt, status := ''Escalated''\<rparr>],
              issue_updates := issue_updates s @
                [\<lparr>update_id = fst (fresh 0), upd_issue_id = issue_id i, upd_role = ''System'',
                  content_type = ''text'',
                  content_text = Some (''Auto-escalated to '' @ nxt @ '' due to SLA breach''),
                  content_url = None, timestamp = snd (fresh 0)\<rparr>]\<rparr>, 1) \<and>
         length (issue_updates (fst (check_escalation fresh now s))) =
           length (issue_updates s) + 1 \<and>
         take (length (issue_updates s)) (issue_updates (fst (check_escalation fresh now s))) =
           issue_updates s \<and>
         upd_role (last (issue_updates (fst (check_escalation fresh now s)))) = ''System'' \<and>
         upd_issue_id (last (issue_updates (fst (check_escalation fresh now s)))) = issue_id i \<and>
         assigned_role (hd (issues (fst (check_escalation fresh now s)))) = nxt \<and>
         status (hd (issues (fst (check_escalation fresh now s)))) = ''Escalated'' \<and>
         snd (check_escalation fresh now s) = 1 \<and>
         check_escalation fresh' now (fst (check_escalation fresh now s)) =
           (fst (check_escalation fresh now s), 0)"
proof -
  have first: "check_escalation fresh now s =
           (s\<lparr>issues := [i\<lparr>assigned_role := nxt, status := ''Escalated''\<rparr>],
              issue_updates := issue_updates s @
                [\<lparr>update_id = fst (fresh 0), upd_issue_id = issue_id i, upd_role = ''System'',
                  content_type = ''text'',
                  content_text = Some (''Auto-escalated to '' @ nxt @ '' due to SLA breach''),
                  content_url = None, timestamp = snd (fresh 0)\<rparr>]\<rparr>, 1)"
    using sweep_one [OF assms, of fresh] by (simp add: IssueUpdate_def)
  have "\<forall>j \<in> set (issues (fst (check_escalation fresh now s))). \<not> overdue now j"
    by (simp add: first overdue_def)
  then have second: "check_escalation fresh' now (fst (check_escalation fresh now s)) =
           (fst (check_escalation fresh now s), 0)"
    by (rule sweep_nothing_overdue)
  have rest: "length (issue_updates (fst (check_escalation fresh now s))) =
           length (issue_updates s) + 1 \<and>
         take (length (issue_updates s)) (issue_updates (fst (check_escalation fresh now s))) =
           issue_updates s \<and>
         upd_role (last (issue_updates (fst (check_escalation fresh now s)))) = ''System'' \<and>
         upd_issue_id (last (issue_updates (fst (check_escalation fresh now s)))) = issue_id i \<and>
         assigned_role (hd (issues (fst (check_escalation fresh now s)))) = nxt \<and>
         status (hd (issues (fst (check_escalation fresh now s)))) = ''Escalated'' \<and>
         snd (check_escalation fresh now s) = 1"
    by (simp add: first)
  from first rest second show ?thesis
    by (intro conjI) (rule first, simp_all only: rest second)
qed

theorem sweep_single_overdue_witness:
  "check_escalation (\<lambda>k. (''up'', 150)) 101 st3 =
     (st3\<lparr>issues := [(issues st1 ! 0)\<lparr>assigned_role := ''HoD'', status := ''Escalated''\<rparr>],
          issue_updates :=
            [\<lparr>update_id = ''up'', upd_issue_id = ''a1'', upd_role = ''System'',
              content_type = ''text'',
              content_text = Some ''Auto-escalated to HoD due to SLA breach'',
              content_url = None, timestamp = 150\<rparr>]\<rparr>, 1) \<and>
   upd_role (last (issue_updates (fst (check_escalation (\<lambda>k. (''up'', 150)) 101 st3)))) =
     ''System'' \<and>
   length (issue_updates (fst (check_escalation (\<lambda>k. (''up'', 150)) 101 st3))) = 1 \<and>
   snd (check_escalation (\<lambda>k. (''up2'', 151)) 101
         (fst (check_escalation (\<lambda>k. (''up'', 150)) 101 st3))) = 0"
proof -
  have a: "issues st3 = [issues st1 ! 0]"
    by (simp add: st3_def)
  have b: "status (issues st1 ! 0) = ''Open''" and c: "sla_deadline (issues st1 ! 0) < 101"
    by (simp_all add: st1_def)
  have h: "get_role_hierarchy (category (issues st1 ! 0)) =
      [] @ assigned_role (issues st1 ! 0) # ''HoD'' # [''Admin'', ''Principal'']"
    by (simp add: st1_def get_role_hierarchy_def hierarchies_def)
  have i: "issue_id (issues st1 ! 0) = ''a1''" and u: "issue_updates st3 = []"
    by (simp_all add: st1_def st3_def)
  note all = sweep_single_overdue [OF a b c h, of "\<lambda>k. (''up'', 150)" "\<lambda>k. (''up2'', 151)"]
  from all have one: "check_escalation (\<lambda>k. (''up'', 150)) 101 st3 =
     (st3\<lparr>issues := [(issues st1 ! 0)\<lparr>assigned_role := ''HoD'', status := ''Escalated''\<rparr>],
          issue_updates :=
            [\<lparr>update_id = ''up'', upd_issue_id = ''a1'', upd_role = ''System'',
              content_type = ''text'',
              content_text = Some ''Auto-escalated to HoD due to SLA breach'',
              content_url = None, timestamp = 150\<rparr>]\<rparr>, 1)"
    by (simp add: i u)
  from all have two: "upd_role (last (issue_updates (fst (check_escalation
      (\<lambda>k. (''up'', 150)) 101 st3)))) = ''System''"
    by blast
  from all have three: "length (issue_updates (fst (check_escalation
      (\<lambda>k. (''up'', 150)) 101 st3))) = 1"
    by (simp add: u)
  from all have "check_escalation (\<lambda>k. (''up2'', 151)) 101
         (fst (check_escalation (\<lambda>k. (''up'', 150)) 101 st3)) =
       (fst (check_escalation (\<lambda>k. (''up'', 150)) 101 st3), 0)"
    by blast
  then have four: "snd (check_escalation (\<lambda>k. (''up2'', 151)) 101
         (fst (check_escalation (\<lambda>k. (''up'', 150)) 101 st3))) = 0"
    by (simp only: snd_conv)
  from one two three four show ?thesis
    by (intro conjI)
qed

section \<open>Adding an update\<close>

lemma find_one_by_key:
  "distinct (map key xs) \<Longrightarrow> x \<in> set xs \<Longrightarrow> find_one (\<lambda>j. key j = key x) xs = Some x"
  by (induction xs) (auto simp: image_iff)

text \<open>
  Claim C5. For a caller who is not a student: on a store with distinct issue ids,
  \<open>add_update\<close> on the id of a stored issue appends one update and sets the status
  of that issue to In Progress, whatever it was, leaving every other issue as it
  was; on an id that no stored issue has it raises "Issue not found" and returns the
  store as it was.
\<close>

theorem add_update_in_progress:
  assumes "role u \<noteq> ''Student''"
  shows "(distinct (map issue_id (issues s)) \<and> i \<in> set (issues s) \<longrightarrow>
            add_update fresh u (issue_id i) ct txt s =
              (s\<lparr>issue_updates :=
                    issue_updates s @ [IssueUpdate fresh (issue_id i) (role u) ct txt],
                  issues := map (\<lambda>j. if j = i then j\<lparr>status := ''In Progress''\<rparr> else j)
                              (issues s)\<rparr>,
               Inr ''Update added successfully'')) \<and>
         (iid \<notin> issue_id ` set (issues s) \<longrightarrow>
            add_update fresh u iid ct txt s = (s, Inl NotFound))"
proof (intro conjI impI)
  assume a: "distinct (map issue_id (issues s)) \<and> i \<in> set (issues s)"
  then have f: "find_one (\<lambda>j. issue_id j = issue_id i) (issues s) = Some i"
    by (simp add: find_one_by_key)
  from a have "update_one (\<lambda>j. issue_id j = issue_id i) (\<lambda>j. j\<lparr>status := ''In Progress''\<rparr>)
      (issues s) = map (\<lambda>j. if j = i then j\<lparr>status := ''In Progress''\<rparr> else j) (issues s)"
    by (simp add: update_one_distinct)
  with f assms show "add_update fresh u (issue_id i) ct txt s =
              (s\<lparr>issue_updates :=
                    issue_updates s @ [IssueUpdate fresh (issue_id i) (role u) ct txt],
                  issues := map (\<lambda>j. if j = i then j\<lparr>status := ''In Progress''\<rparr> else j)
                              (issues s)\<rparr>,
               Inr ''Update added successfully'')"
    by (simp add: add_update_def)
next
  assume "iid \<notin> issue_id ` set (issues s)"
  then have "find_one (\<lambda>j. issue_id j = iid) (issues s) = None"
    by (auto simp: find_None_iff)
  with assms show "add_update fresh u iid ct txt s = (s, Inl NotFound)"
    by (simp add: add_update_def)
qed

theorem add_update_in_progress_witness:
  "add_update (''up'', 150) teacher ''b1'' ''text'' (Some ''reopened'') st1 =
     (\<lparr>issues = [issues st1 ! 0, (issues st1 ! 1)\<lparr>status := ''In Progress''\<rparr>],
       issue_updates = [IssueUpdate (''up'', 150) ''b1'' ''Staff'' ''text'' (Some ''reopened'')]\<rparr>,
      Inr ''Update added successfully'') \<and>
   status (issues st1 ! 1) = ''Resolved'' \<and>
   add_update (''up'', 150) teacher ''zz'' ''text'' (Some ''reopened'') st1 = (st1, Inl NotFound)"
proof -
  have r: "role teacher \<noteq> ''Student''"
    by (simp add: teacher_def)
  have d: "distinct (map issue_id (issues st1)) \<and> issues st1 ! 1 \<in> set (issues st1)"
    by (simp add: st1_def)
  have n: "''zz'' \<notin> issue_id ` set (issues st1)"
    by (simp add: st1_def)
  have i: "issue_id (issues st1 ! 1) = ''b1''" and t: "status (issues st1 ! 1) = ''Resolved''"
    by (simp_all add: st1_def)
  from add_update_in_progress [OF r, of st1 "issues st1 ! 1" "(''up'', 150)" "''text''"
      "Some ''reopened''" "''zz''"] d n
  have "add_update (''up'', 150) teacher (issue_id (issues st1 ! 1)) ''text'' (Some ''reopened'') st1 =
      (st1\<lparr>issue_updates := issue_updates st1 @
              [IssueUpdate (''up'', 150) (issue_id (issues st1 ! 1)) (role teacher) ''text''
                 (Some ''reopened'')],
            issues := map (\<lambda>j. if j = issues st1 ! 1 then j\<lparr>status := ''In Progress''\<rparr> else j)
                        (issues st1)\<rparr>,
       Inr ''Update added successfully'') \<and>
     add_update (''up'', 150) teacher ''zz'' ''text'' (Some ''reopened'') st1 = (st1, Inl NotFound)"
    by blast
  with i t show ?thesis
    by (simp add: st1_def teacher_def)
qed

section \<open>The anonymity token\<close>

lemma hide_token_keys: "''anon_token'' \<notin> fst ` set (hide_token i)"
  by (auto simp: hide_token_def project_out_def)

text \<open>
  Claim C8. No document returned by \<open>get_my_issues\<close>, \<open>get_all_issues\<close> or
  \<open>get_issue\<close> has the key \<open>anon_token\<close>, whatever the role of the caller.
\<close>

theorem anon_token_hidden:
  "(\<forall>d \<in> set (get_my_issues pf now u s). ''anon_token'' \<notin> fst ` set d) \<and>
   (\<forall>ds. get_all_issues u s = Inr ds \<longrightarrow> (\<forall>d \<in> set ds. ''anon_token'' \<notin> fst ` set d)) \<and>
   (\<forall>d us. get_issue iid s = Inr (d, us) \<longrightarrow> ''anon_token'' \<notin> fst ` set d)"
proof (intro conjI allI impI ballI)
  fix d
  assume "d \<in> set (get_my_issues pf now u s)"
  then obtain i where "d = hide_token i"
    by (auto simp: get_my_issues_def Let_def split: if_splits)
  then show "''anon_token'' \<notin> fst ` set d"
    by (simp add: hide_token_keys)
next
  fix ds d
  assume "get_all_issues u s = Inr ds" and "d \<in> set ds"
  then obtain i where "d = hide_token i"
    by (auto simp: get_all_issues_def split: if_splits)
  then show "''anon_token'' \<notin> fst ` set d"
    by (simp add: hide_token_keys)
next
  fix d us
  assume "get_issue iid s = Inr (d, us)"
  then obtain i where "d = hide_token i"
    by (auto simp: get_issue_def split: option.splits)
  then show "''anon_token'' \<notin> fst ` set d"
    by (simp add: hide_token_keys)
qed

theorem anon_token_hidden_witness:
  "''anon_token'' \<in> fst ` set (model_dump (issues st1 ! 0)) \<and>
   get_my_issues toy_platform 5 teacher st1 = [hide_token (issues st1 ! 0)] \<and>
   get_all_issues admin st1 = Inr [hide_token (issues st1 ! 0), hide_token (issues st1 ! 1)] \<and>
   get_issue ''a1'' st1 = Inr (hide_token (issues st1 ! 0), []) \<and>
   ''anon_token'' \<notin> fst ` set (hide_token (issues st1 ! 0)) \<and>
   ''anon_token'' \<notin> fst ` set (hide_token (issues st1 ! 1))"
proof -
  have k: "''anon_token'' \<in> fst ` set (model_dump (issues st1 ! 0))"
    by (simp add: model_dump_def)
  have m: "get_my_issues toy_platform 5 teacher st1 = [hide_token (issues st1 ! 0)]"
    by (simp add: get_my_issues_def teacher_def find_to_list_def st1_def)
  have a: "get_all_issues admin st1 =
      Inr [hide_token (issues st1 ! 0), hide_token (issues st1 ! 1)]"
    by (simp add: get_all_issues_def admin_def find_to_list_def st1_def)
  have g: "get_issue ''a1'' st1 = Inr (hide_token (issues st1 ! 0), [])"
    by (simp add: get_issue_def st1_def)
  note h = anon_token_hidden [of toy_platform 5 teacher st1 "''a1''"]
  from h m have 1: "''anon_token'' \<notin> fst ` set (hide_token (issues st1 ! 0))"
    by simp
  from h g have 3: "''anon_token'' \<notin> fst ` set (hide_token (issues st1 ! 0))"
    by simp
  note h' = anon_token_hidden [of toy_platform 5 admin st1 "''a1''"]
  from h' a have 2: "''anon_token'' \<notin> fst ` set (hide_token (issues st1 ! 1))"
    by simp
  from k m a g 1 2 3 show ?thesis
    by blast
qed

text \<open>
  Claim C9. Two clock readings of one UTC day give the same token for an identity;
  so the token stored in an issue that \<open>submit_feedback\<close> creates is the token
  \<open>get_my_issues\<close> looks up for the same student later that day.
\<close>

theorem anon_token_same_day:
  assumes "utc_day t1 = utc_day t2"
  shows "generate_anon_token pf t1 ident = generate_anon_token pf t2 ident \<and>
         (role u = ''Student'' \<and> is_appropriate (moderate_with_gemini gw text) \<and>
          bson_int (mod_urgency_score (moderate_with_gemini gw text)) \<and>
          find_one (is_similar pf (moderate_with_gemini gw text)) (existing_issues cat s) = None \<and>
          now_token env = t1 \<longrightarrow>
            anon_token (last (issues (fst (submit_feedback pf gw env u cat text ev s)))) =
            generate_anon_token pf t2 (uid u)) \<and>
         (now_token env = t1 \<longrightarrow>
            (\<forall>ni. fst (submit_feedback pf gw env u cat text ev s) = s\<lparr>issues := issues s @ [ni]\<rparr>
               \<longrightarrow> anon_token ni = generate_anon_token pf t2 (uid u)))"
proof -
  have eq: "\<And>x. generate_anon_token pf t1 x = generate_anon_token pf t2 x"
    using assms by (simp add: generate_anon_token_def)
  let ?new = "Issue (uuid4 env, now_created env) cat (mod_summary (moderate_with_gemini gw text)) text
             (mod_urgency_score (moderate_with_gemini gw text)) (get_role_hierarchy cat ! 0)
             (now_sla env + timedelta_days 2)
             (generate_anon_token pf (now_token env) (uid u))
             (case ev of None \<Rightarrow> [] | Some es \<Rightarrow> es)"
  show ?thesis
  proof (intro conjI impI allI)
    show "generate_anon_token pf t1 ident = generate_anon_token pf t2 ident"
      by (rule eq)
  next
    assume a: "role u = ''Student'' \<and> is_appropriate (moderate_with_gemini gw text) \<and>
          bson_int (mod_urgency_score (moderate_with_gemini gw text)) \<and>
          find_one (is_similar pf (moderate_with_gemini gw text)) (existing_issues cat s) = None \<and>
          now_token env = t1"
    then have "submit_feedback pf gw env u cat text ev s =
        (s\<lparr>issues := issues s @ [?new]\<rparr>, Inr (''Feedback submitted successfully'', uuid4 env))"
      by (intro submit_fresh) simp_all
    with a show "anon_token (last (issues (fst (submit_feedback pf gw env u cat text ev s)))) =
            generate_anon_token pf t2 (uid u)"
      by (simp add: Issue_def eq)
  next
    fix ni
    assume t: "now_token env = t1"
      and n: "fst (submit_feedback pf gw env u cat text ev s) = s\<lparr>issues := issues s @ [ni]\<rparr>"
    from n have len: "length (issues (fst (submit_feedback pf gw env u cat text ev s))) =
        length (issues s) + 1"
      by simp
    let ?m = "moderate_with_gemini gw text"
    have "fst (submit_feedback pf gw env u cat text ev s) = s\<lparr>issues := issues s @ [?new]\<rparr>"
    proof (cases "role u = ''Student'' \<and> is_appropriate ?m")
      case False
      then have "fst (submit_feedback pf gw env u cat text ev s) = s"
        by (auto simp: submit_feedback_def Let_def)
      with len show ?thesis by simp
    next
      case True
      show ?thesis
      proof (cases "find_one (is_similar pf ?m) (existing_issues cat s)")
        case (Some e)
        with True have "length (issues (fst (submit_feedback pf gw env u cat text ev s))) =
            length (issues s)"
          by (simp add: submit_similar update_one_length)
        with len show ?thesis by simp
      next
        case None
        show ?thesis
        proof (cases "bson_int (mod_urgency_score ?m)")
          case True': True
          with True None show ?thesis
            by (simp add: submit_fresh)
        next
          case False
          with True None have "fst (submit_feedback pf gw env u cat text ev s) = s"
            by (simp add: submit_overflow)
          with len show ?thesis by simp
        qed
      qed
    qed
    with n have "issues s @ [ni] = issues s @ [?new]"
      by (metis db.select_convs(1) db.surjective db.update_convs(1))
    then have "ni = ?new"
      by simp
    with t show "anon_token ni = generate_anon_token pf t2 (uid u)"
      by (simp add: Issue_def eq)
  qed
qed

theorem anon_token_same_day_witness:
  "utc_day 1000 = utc_day 86399999999 \<and>
   generate_anon_token toy_platform 1000 ''s1'' =
     generate_anon_token toy_platform 86399999999 ''s1'' \<and>
   generate_anon_token toy_platform 1000 ''s1'' \<noteq>
     generate_anon_token toy_platform 86400000000 ''s1'' \<and>
   anon_token (last (issues (fst (submit_feedback toy_platform gw_wifi env0 student
       ''Academics'' ''wifi is down'' None st1)))) =
     generate_anon_token toy_platform 86399999999 ''s1''"
proof -
  have d: "utc_day 1000 = utc_day 86399999999"
    by (simp add: utc_day_def)
  have n: "generate_anon_token toy_platform 1000 ''s1'' \<noteq>
     generate_anon_token toy_platform 86400000000 ''s1''"
    by (simp add: generate_anon_token_def toy_platform_def utc_day_def)
  have f: "find_one (is_similar toy_platform (moderate_with_gemini gw_wifi ''wifi is down''))
      (existing_issues ''Academics'' st1) = None"
    by (rule no_similar_existing, rule wifi_not_in_st1) (simp add: gw_wifi_reply)
  have h: "role student = ''Student'' \<and>
      is_appropriate (moderate_with_gemini gw_wifi ''wifi is down'') \<and>
      bson_int (mod_urgency_score (moderate_with_gemini gw_wifi ''wifi is down'')) \<and>
      find_one (is_similar toy_platform (moderate_with_gemini gw_wifi ''wifi is down''))
        (existing_issues ''Academics'' st1) = None \<and>
      now_token env0 = 1000"
    using f by (simp add: student_def env0_def gw_wifi_reply bson_int_60)
  have i: "uid student = ''s1''"
    by (simp add: student_def)
  from anon_token_same_day [OF d, of toy_platform "''s1''" student gw_wifi "''wifi is down''"
      "''Academics''" st1 env0 None] h i d n
  show ?thesis
    by simp
qed

end
